theory Spec2Isabelle
  imports Complex_Main "HOL-Library.Word"
begin

section \<open>The WebNN normalization op builder\<close>

text \<open>
  A shallow embedding of \<^verbatim>\<open>normalization_op_builder.cc\<close>: the support filter
  \<^verbatim>\<open>IsOpSupportedImpl\<close>, the input-type filter \<^verbatim>\<open>HasSupportedInputsImpl\<close> and the
  lowering \<^verbatim>\<open>AddToModelBuilderImpl\<close> of BatchNormalization, InstanceNormalization and
  LayerNormalization nodes.

  An \<^verbatim>\<open>int64_t\<close> dimension or attribute is modelled by its mathematical value (an
  \<open>int\<close>): the builder never does 64-bit arithmetic that could overflow on it, it only
  compares and converts. A \<^verbatim>\<open>uint32_t\<close> is a \<open>32 word\<close>, so that the unchecked
  arithmetic of the source wraps around as it does in C++.
\<close>

subsection \<open>Data model\<close>

type_synonym uint32 = "32 word"

text \<open>
  Every way the lowering can fail. The first group are the \<^verbatim>\<open>Status\<close> values that
  \<^verbatim>\<open>ORT_RETURN_IF_NOT\<close> and \<^verbatim>\<open>ORT_MAKE_STATUS\<close> return, one per site of the source. The
  second group are exceptions thrown by helpers (\<^verbatim>\<open>SafeInt\<close>, \<^verbatim>\<open>HandleNegativeAxis\<close>, the
  operand lookup). \<open>OutOfBounds\<close> stands for an index past the end of \<^verbatim>\<open>input_defs\<close> in the
  input-type filter, which is undefined behaviour in C++; the filter only returns a boolean
  and writes nothing. In the lowering, which returns a status and writes to the model
  builder, undefined behaviour is not an error value: there the result is \<open>None\<close>, which
  says nothing about a status or about the model builder.
\<close>

datatype error =
    RequiresAtLeastTwoInputs
  | CannotGetInputShape
  | CannotGetScaleShape
  | ScaleSizeNotWithinInputRank
  | ScaleSizeNotOne
  | CannotGetBiasShape
  | BiasShapeNotEqualScaleShape
  | BatchNormalizationRequiresFiveInputs
  | UnsupportedNormalizationOp
  | SafeIntOverflow
  | AxisOutOfRange
  | OperandNotFound
  | OutOfBounds

datatype Status = OK | Error error

text \<open>
  A \<^verbatim>\<open>NodeArg\<close>: its name, whether it exists (an optional input that is not supplied does
  not), its static shape and its element type, the last two absent when the graph does not
  give them.
\<close>

record NodeArg =
  Name :: string
  Exists :: bool
  Shape :: "int list option"
  Type :: "int option"

record Node =
  OpType :: string
  NodeName :: string
  InputDefs :: "NodeArg list"
  OutputDefs :: "NodeArg list"
  int_attrs :: "string \<rightharpoonup> int"
  float_attrs :: "string \<rightharpoonup> real"

text \<open>
  The operands of the target graph. A WebNN operand is an opaque handle; the model keeps
  how it was built: \<open>Handle\<close> is an operand that was in the operand table before the
  call, the other constructors are the four builder calls the source makes, with their
  arguments. \<open>MLOptions\<close> is the options object: label, scale, bias, epsilon, axes.
\<close>

datatype MLOperand =
    Handle nat
  | batchNormalization MLOperand MLOperand MLOperand MLOptions
  | layerNormalization MLOperand MLOptions
  | instanceNormalization MLOperand MLOptions
  | reshape MLOperand "uint32 list" string
and MLOptions =
    Options (label: string) (scale: MLOperand) (bias: "MLOperand option")
      (epsilon: real) (axes: "uint32 list option")

record ModelBuilder =
  wnn_operands :: "string \<rightharpoonup> MLOperand"

subsection \<open>Helpers the builder calls\<close>

text \<open>
  Modelled from the spec: \<^verbatim>\<open>GetShape\<close> and \<^verbatim>\<open>GetType\<close> of helper.h are not in the source
  file. Each fails (returns false) when the static shape, or the element type, of the tensor
  is not resolvable, and gives it otherwise.
\<close>

definition GetShape :: "NodeArg \<Rightarrow> int list option" where
  "GetShape node_arg = Shape node_arg"

definition GetType :: "NodeArg \<Rightarrow> int option" where
  "GetType node_arg = Type node_arg"

text \<open>
  Modelled from the spec: \<^verbatim>\<open>NodeAttrHelper::Get\<close>, the typed attribute access with a
  default, is not in the source file.
\<close>

definition Get_int :: "Node \<Rightarrow> string \<Rightarrow> int \<Rightarrow> int" where
  "Get_int node key def_val = (case int_attrs node key of None \<Rightarrow> def_val | Some v \<Rightarrow> v)"

definition Get_float :: "Node \<Rightarrow> string \<Rightarrow> real \<Rightarrow> real" where
  "Get_float node key def_val = (case float_attrs node key of None \<Rightarrow> def_val | Some v \<Rightarrow> v)"

text \<open>
  Modelled from the spec: the element type tags of \<^verbatim>\<open>ONNX_NAMESPACE::TensorProto_DataType\<close>
  (the two accepted floating-point types, with the values ONNX gives them) and
  \<^verbatim>\<open>IsSupportedDataType\<close>, membership in the set of supported types.
\<close>

definition TensorProto_DataType_FLOAT :: int where
  "TensorProto_DataType_FLOAT = 1"

definition TensorProto_DataType_FLOAT16 :: int where
  "TensorProto_DataType_FLOAT16 = 10"

definition IsSupportedDataType :: "int \<Rightarrow> int list \<Rightarrow> bool" where
  "IsSupportedDataType data_type supported_data_types = (data_type \<in> set supported_data_types)"

text \<open>
  Modelled from the spec: \<^verbatim>\<open>SafeInt<uint32_t>\<close> of safeint.h, the checked conversion of a
  signed value to the unsigned 32-bit shape type. A value that the type cannot hold is a
  hard failure.
\<close>

definition SafeInt_uint32 :: "int \<Rightarrow> error + uint32" where
  "SafeInt_uint32 v = (if 0 \<le> v \<and> v < 2 ^ 32 then Inr (word_of_int v) else Inl SafeIntOverflow)"

text \<open>
  Modelled from the spec: \<^verbatim>\<open>HandleNegativeAxis\<close> of providers/common.h. An axis in
  \<open>[-rank, rank - 1]\<close> is normalised by adding the rank when it is negative; an axis
  outside that range is a hard failure.
\<close>

definition HandleNegativeAxis :: "int \<Rightarrow> nat \<Rightarrow> error + int" where
  "HandleNegativeAxis axis tensor_rank =
     (if - int tensor_rank \<le> axis \<and> axis < int tensor_rank
      then Inr (if axis < 0 then axis + int tensor_rank else axis)
      else Inl AxisOutOfRange)"

text \<open>
  Modelled from the spec: the operand table of model_builder.h, a map from tensor names to
  operands. \<^verbatim>\<open>GetOperand\<close> looks a name up, and fails on a name that has no operand;
  \<^verbatim>\<open>AddOperand\<close> inserts, and never overwrites an entry.
\<close>

definition GetOperand :: "ModelBuilder \<Rightarrow> string \<Rightarrow> error + MLOperand" where
  "GetOperand model_builder name =
     (case wnn_operands model_builder name of
        None \<Rightarrow> Inl OperandNotFound
      | Some operand \<Rightarrow> Inr operand)"

definition AddOperand :: "ModelBuilder \<Rightarrow> string \<Rightarrow> MLOperand \<Rightarrow> ModelBuilder" where
  "AddOperand model_builder name operand =
     (case wnn_operands model_builder name of
        None \<Rightarrow> model_builder\<lparr>wnn_operands := (wnn_operands model_builder)(name \<mapsto> operand)\<rparr>
      | Some _ \<Rightarrow> model_builder)"

text \<open>
  \<^verbatim>\<open>input_defs[i]\<close>: the source indexes without a bounds check, so an index past the end
  is undefined behaviour; \<open>at_index\<close> reports it as \<open>OutOfBounds\<close>. The filter returns
  this value; the lowering turns it into the result \<open>None\<close>.
\<close>

definition at_index :: "'a list \<Rightarrow> nat \<Rightarrow> error + 'a" where
  "at_index xs i = (if i < length xs then Inr (xs ! i) else Inl OutOfBounds)"

subsection \<open>The support filter\<close>

text \<open>
  \<^verbatim>\<open>IsOpSupportedImpl\<close> (lines 145 to 176). The initializers, the device type and the
  logger are not used by the decision. \<^verbatim>\<open>input_defs[0]\<close> is read after the size check, so
  it is in bounds.
\<close>

definition IsOpSupportedImpl :: "Node \<Rightarrow> bool" where
  "IsOpSupportedImpl node =
     (let input_defs = InputDefs node;
          op_type = OpType node
      in if length input_defs < 2 then False
         else if GetShape (input_defs ! 0) = None then False
         else if length (OutputDefs node) \<noteq> 1 then False
         else if op_type = ''BatchNormalization'' \<and> Get_int node ''training_mode'' 0 \<noteq> 0
           then False
         else True)"

subsection \<open>The input-type filter\<close>

text \<open>
  \<^verbatim>\<open>HasSupportedInputsImpl\<close> (lines 178 to 223). \<^verbatim>\<open>has_input2\<close> and \<^verbatim>\<open>has_input3\<close> index
  under a size guard that covers the index. \<^verbatim>\<open>has_input4\<close> indexes \<^verbatim>\<open>input_defs[4]\<close> under
  the guard \<^verbatim>\<open>input_defs.size() > 3\<close>. The chain of \<^verbatim>\<open>||\<close> on \<^verbatim>\<open>GetType\<close> short-circuits:
  \<^verbatim>\<open>input_defs[1]\<close> is read only when the type of \<^verbatim>\<open>input_defs[0]\<close> was resolved. A type
  variable the source leaves uninitialised is \<open>None\<close>; it is read only under its
  \<^verbatim>\<open>has_input\<close> flag.
\<close>

definition HasSupportedInputsImpl :: "Node \<Rightarrow> error + bool" where
  "HasSupportedInputsImpl node =
     (let input_defs = InputDefs node;
          has_input2 = (length input_defs > 2 \<and> Exists (input_defs ! 2));
          has_input3 = (length input_defs > 3 \<and> Exists (input_defs ! 3))
      in case (if length input_defs > 3
               then (case at_index input_defs 4 of
                       Inl e \<Rightarrow> Inl e
                     | Inr input4 \<Rightarrow> Inr (Exists input4))
               else Inr False) of
           Inl e \<Rightarrow> Inl e
         | Inr has_input4 \<Rightarrow>
        (case at_index input_defs 0 of
           Inl e \<Rightarrow> Inl e
         | Inr input0 \<Rightarrow>
        (case GetType input0 of
           None \<Rightarrow> Inr False
         | Some input0_type \<Rightarrow>
        (case at_index input_defs 1 of
           Inl e \<Rightarrow> Inl e
         | Inr input1 \<Rightarrow>
        (case GetType input1 of
           None \<Rightarrow> Inr False
         | Some input1_type \<Rightarrow>
        (let input2_type = (if has_input2 then GetType (input_defs ! 2) else None);
             input3_type = (if has_input3 then GetType (input_defs ! 3) else None);
             input4_type = (if has_input4 then GetType (input_defs ! 4) else None)
         in Inr (if (has_input2 \<and> input2_type = None) \<or>
                    (has_input3 \<and> input3_type = None) \<or>
                    (has_input4 \<and> input4_type = None) then False
                 else if \<not> IsSupportedDataType input0_type
                       [TensorProto_DataType_FLOAT, TensorProto_DataType_FLOAT16] then False
                 else if input0_type \<noteq> input1_type \<or>
                         (has_input2 \<and> Some input0_type \<noteq> input2_type) \<or>
                         (has_input3 \<and> Some input0_type \<noteq> input3_type) \<or>
                         (has_input4 \<and> Some input0_type \<noteq> input4_type) then False
                 else True)))))))"

subsection \<open>The lowering\<close>

text \<open>
  The \<^verbatim>\<open>std::transform\<close> of lines 100 to 102: every dimension goes through
  \<^verbatim>\<open>SafeInt<uint32_t>\<close>, and the first one that does not fit throws.
\<close>

primrec convert_dims :: "int list \<Rightarrow> error + uint32 list" where
  "convert_dims [] = Inr []"
| "convert_dims (dim_value # dims) =
     (case SafeInt_uint32 dim_value of
        Inl e \<Rightarrow> Inl e
      | Inr d \<Rightarrow>
          (case convert_dims dims of
             Inl e \<Rightarrow> Inl e
           | Inr ds \<Rightarrow> Inr (d # ds)))"

text \<open>
  Modelled from the spec: \<^verbatim>\<open>GetVecUint32FromVecInt64\<close> of helper.h is not in the source
  file; it converts a shape to the unsigned shape type, each dimension checked.
\<close>

definition GetVecUint32FromVecInt64 :: "int list \<Rightarrow> error + uint32 list" where
  "GetVecUint32FromVecInt64 int64_vec = convert_dims int64_vec"

text \<open>
  Lines 98 to 115: the shape of the reshape in front of \<^verbatim>\<open>instanceNormalization\<close>, computed
  when the input rank is not 4. \<^verbatim>\<open>insertion_point\<close> is \<^verbatim>\<open>new_shape.begin() + 3\<close>, with no
  guard on the rank; on a shape of fewer than three dimensions it lies past the end, and
  the \<^verbatim>\<open>insert\<close> at it is undefined behaviour: the result is \<open>None\<close>, not an error.
  Below rank 4, \<^verbatim>\<open>-excess_rank\<close> ones are inserted at index 3. Above it, the
  \<^verbatim>\<open>excess_rank + 1\<close> dimensions from index 3 on are multiplied by \<^verbatim>\<open>std::accumulate\<close> with
  \<^verbatim>\<open>std::multiplies<uint32_t>\<close>, \<^verbatim>\<open>excess_rank\<close> elements from index 3 on are erased and the
  element at index 3 is overwritten with the product (through \<^verbatim>\<open>insertion_point\<close>, which
  still addresses index 3 of the vector after \<^verbatim>\<open>erase\<close>). The accumulator of the source is an
  \<^verbatim>\<open>int\<close> (the initial value is the literal 1), converted to \<^verbatim>\<open>uint32_t\<close> for each
  multiplication and back: the product is the product modulo \<open>2 ^ 32\<close>, which is the
  multiplication of \<open>32 word\<close>.
\<close>

definition InstanceNormalization_new_shape :: "int list \<Rightarrow> (error + uint32 list) option" where
  "InstanceNormalization_new_shape input_shape =
     (case convert_dims input_shape of
        Inl e \<Rightarrow> Some (Inl e)
      | Inr new_shape \<Rightarrow>
          (let excess_rank = int (length new_shape) - 4
           in if length new_shape < 3 then None
              else if length input_shape < 4
                then Some (Inr (take 3 new_shape @ replicate (nat (- excess_rank)) 1 @
                                drop 3 new_shape))
              else
                (let sum = foldl (*) 1 (take (nat (excess_rank + 1)) (drop 3 new_shape));
                     erased = take 3 new_shape @ drop (3 + nat excess_rank) new_shape
                 in Some (Inr (erased[3 := sum])))))"

text \<open>
  Lines 85 to 88: the axes of \<^verbatim>\<open>layerNormalization\<close>. The vector has
  \<^verbatim>\<open>rank - SafeInt<uint32_t>(axis)\<close> elements, a checked subtraction in the unsigned 32-bit
  type, and \<^verbatim>\<open>std::iota\<close> fills it with \<^verbatim>\<open>axis\<close>, \<^verbatim>\<open>axis + 1\<close>, and so on, each value
  converted to \<^verbatim>\<open>uint32_t\<close> when it is stored.
\<close>

definition LayerNormalization_axes :: "Node \<Rightarrow> nat \<Rightarrow> error + uint32 list" where
  "LayerNormalization_axes node rank =
     (case HandleNegativeAxis (Get_int node ''axis'' (- 1)) rank of
        Inl e \<Rightarrow> Inl e
      | Inr axis \<Rightarrow>
          (case SafeInt_uint32 axis of
             Inl e \<Rightarrow> Inl e
           | Inr axis32 \<Rightarrow>
               (let n = int rank - uint axis32
                in if 0 \<le> n \<and> n < 2 ^ 32
                   then Inr (map (\<lambda>i. word_of_int (axis + int i)) [0..<nat n])
                   else Inl SafeIntOverflow)))"

text \<open>
  Lines 37 to 75, shared by the three operators: the checks on the input count and on the
  shapes of scale and bias, and the options (label, scale, bias, epsilon). The result is
  the input operand, the input shape and the options. Epsilon is a float that is only
  passed on; the model keeps the decimal value of the default.
\<close>

definition normalization_options ::
    "ModelBuilder \<Rightarrow> Node \<Rightarrow> error + (MLOperand \<times> int list \<times> MLOptions)" where
  "normalization_options model_builder node =
     (let op_type = OpType node;
          input_defs = InputDefs node
      in if \<not> 2 \<le> length input_defs then Inl RequiresAtLeastTwoInputs
         else
        (case GetOperand model_builder (Name (input_defs ! 0)) of
           Inl e \<Rightarrow> Inl e
         | Inr input \<Rightarrow>
        (case GetShape (input_defs ! 0) of
           None \<Rightarrow> Inl CannotGetInputShape
         | Some input_shape \<Rightarrow>
        (case GetShape (input_defs ! 1) of
           None \<Rightarrow> Inl CannotGetScaleShape
         | Some scale_shape \<Rightarrow>
        (let rank = length input_shape;
             scale_size = length scale_shape;
             has_bias = (3 \<le> length input_defs \<and> Name (input_defs ! 2) \<noteq> [])
         in if op_type = ''LayerNormalization'' \<and> \<not> (1 \<le> scale_size \<and> scale_size \<le> rank)
              then Inl ScaleSizeNotWithinInputRank
            else if op_type \<noteq> ''LayerNormalization'' \<and> scale_size \<noteq> 1
              then Inl ScaleSizeNotOne
            else if has_bias \<and> GetShape (input_defs ! 2) = None
              then Inl CannotGetBiasShape
            else if has_bias \<and> GetShape (input_defs ! 2) \<noteq> Some scale_shape
              then Inl BiasShapeNotEqualScaleShape
            else
           (case GetOperand model_builder (Name (input_defs ! 1)) of
              Inl e \<Rightarrow> Inl e
            | Inr scale_operand \<Rightarrow>
           (case (if has_bias
                  then (case GetOperand model_builder (Name (input_defs ! 2)) of
                          Inl e \<Rightarrow> Inl e
                        | Inr bias_operand \<Rightarrow> Inr (Some bias_operand))
                  else Inr None) of
              Inl e \<Rightarrow> Inl e
            | Inr bias_option \<Rightarrow>
                Inr (input, input_shape,
                     Options (NodeName node) scale_operand bias_option
                       (Get_float node ''epsilon'' (1 / 100000)) None))))))))"

text \<open>Lines 79 to 83: BatchNormalization.\<close>

definition BatchNormalization_output ::
    "ModelBuilder \<Rightarrow> Node \<Rightarrow> MLOperand \<Rightarrow> MLOptions \<Rightarrow> error + MLOperand" where
  "BatchNormalization_output model_builder node input options =
     (let input_defs = InputDefs node
      in if length input_defs \<noteq> 5 then Inl BatchNormalizationRequiresFiveInputs
         else
        (case GetOperand model_builder (Name (input_defs ! 3)) of
           Inl e \<Rightarrow> Inl e
         | Inr mean \<Rightarrow>
        (case GetOperand model_builder (Name (input_defs ! 4)) of
           Inl e \<Rightarrow> Inl e
         | Inr variance \<Rightarrow> Inr (batchNormalization input mean variance options))))"

text \<open>Lines 85 to 91: LayerNormalization.\<close>

definition LayerNormalization_output ::
    "Node \<Rightarrow> MLOperand \<Rightarrow> nat \<Rightarrow> MLOptions \<Rightarrow> error + MLOperand" where
  "LayerNormalization_output node input rank options =
     (case LayerNormalization_axes node rank of
        Inl e \<Rightarrow> Inl e
      | Inr axes_vec \<Rightarrow>
          Inr (layerNormalization input
                 (Options (label options) (scale options) (bias options) (epsilon options)
                    (Some axes_vec))))"

text \<open>
  Lines 96 to 134: InstanceNormalization, with a reshape in front and a reshape back to the
  input shape when the input rank is not 4. The result is \<open>None\<close> where the computation of
  the shape has undefined behaviour.
\<close>

definition InstanceNormalization_output ::
    "Node \<Rightarrow> MLOperand \<Rightarrow> int list \<Rightarrow> MLOptions \<Rightarrow> (error + MLOperand) option" where
  "InstanceNormalization_output node input input_shape options =
     (case (if length input_shape \<noteq> 4
            then (case InstanceNormalization_new_shape input_shape of
                    None \<Rightarrow> None
                  | Some (Inl e) \<Rightarrow> Some (Inl e)
                  | Some (Inr new_shape) \<Rightarrow>
                      Some (Inr (reshape input new_shape (NodeName node @ ''_reshape_input''))))
            else Some (Inr input)) of
        None \<Rightarrow> None
      | Some (Inl e) \<Rightarrow> Some (Inl e)
      | Some (Inr reshaped_input) \<Rightarrow>
          (let output = instanceNormalization reshaped_input options
           in if length input_shape \<noteq> 4
              then (case GetVecUint32FromVecInt64 input_shape of
                      Inl e \<Rightarrow> Some (Inl e)
                    | Inr output_shape \<Rightarrow>
                        Some (Inr (reshape output output_shape
                                     (NodeName node @ ''reshape_output''))))
              else Some (Inr output)))"

text \<open>
  Lines 35 to 137: the operand that line 138 registers as the output of the node. Up to
  here the source only reads the model builder. Only the InstanceNormalization branch can
  run into undefined behaviour; the index accesses of the other parts are under the size
  checks of lines 37, 58, 68 and 79.
\<close>

definition normalization_output ::
    "ModelBuilder \<Rightarrow> Node \<Rightarrow> (error + MLOperand) option" where
  "normalization_output model_builder node =
     (case normalization_options model_builder node of
        Inl e \<Rightarrow> Some (Inl e)
      | Inr (input, input_shape, options) \<Rightarrow>
          (if OpType node = ''BatchNormalization''
             then Some (BatchNormalization_output model_builder node input options)
           else if OpType node = ''LayerNormalization''
             then Some (LayerNormalization_output node input (length input_shape) options)
           else if OpType node = ''InstanceNormalization''
             then InstanceNormalization_output node input input_shape options
           else Some (Inl UnsupportedNormalizationOp)))"

text \<open>
  \<^verbatim>\<open>AddToModelBuilderImpl\<close> (lines 32 to 141). The model builder is passed by reference in
  the source; the model returns it with the status. On every failure that the source
  signals (a \<^verbatim>\<open>Status\<close> or an exception) it is returned as it was: the only write is
  \<^verbatim>\<open>AddOperand\<close> in line 138, after the last check. The result is \<open>None\<close> where the source
  has undefined behaviour: in the InstanceNormalization branch on an input of rank below 3,
  and in \<^verbatim>\<open>node.OutputDefs()[0]\<close>, which is not guarded in this function, on a node with no
  output.
\<close>

definition AddToModelBuilderImpl ::
    "ModelBuilder \<Rightarrow> Node \<Rightarrow> (Status \<times> ModelBuilder) option" where
  "AddToModelBuilderImpl model_builder node =
     (case normalization_output model_builder node of
        None \<Rightarrow> None
      | Some (Inl e) \<Rightarrow> Some (Error e, model_builder)
      | Some (Inr output) \<Rightarrow>
          (case at_index (OutputDefs node) 0 of
             Inl e \<Rightarrow> None
           | Inr output_def \<Rightarrow>
               Some (OK, AddOperand model_builder (Name output_def) output)))"

subsection \<open>Example nodes\<close>

text \<open>
  Concrete nodes and a concrete operand table, on which the theorems below are
  instantiated. Every tensor is float32 with a static shape unless said otherwise.
\<close>

definition float_tensor :: "string \<Rightarrow> int list \<Rightarrow> NodeArg" where
  "float_tensor name shape =
     \<lparr>Name = name, Exists = True, Shape = Some shape, Type = Some TensorProto_DataType_FLOAT\<rparr>"

definition example_node :: "string \<Rightarrow> NodeArg list \<Rightarrow> (string \<rightharpoonup> int) \<Rightarrow> Node" where
  "example_node op_type inputs attrs =
     \<lparr>OpType = op_type, NodeName = ''norm'', InputDefs = inputs,
      OutputDefs = [float_tensor ''y'' []], int_attrs = attrs, float_attrs = Map.empty\<rparr>"

definition example_builder :: ModelBuilder where
  "example_builder =
     \<lparr>wnn_operands = [''x'' \<mapsto> Handle 0, ''scale'' \<mapsto> Handle 1, ''bias'' \<mapsto> Handle 2,
        ''mean'' \<mapsto> Handle 3, ''var'' \<mapsto> Handle 4]\<rparr>"

text \<open>BatchNormalization on a \<open>[1,3,4,4]\<close> input with the first \<open>n\<close> of its five inputs.\<close>

definition batch_norm_node :: "nat \<Rightarrow> (string \<rightharpoonup> int) \<Rightarrow> Node" where
  "batch_norm_node n attrs =
     example_node ''BatchNormalization''
       (take n [float_tensor ''x'' [1, 3, 4, 4], float_tensor ''scale'' [3],
                float_tensor ''bias'' [3], float_tensor ''mean'' [3], float_tensor ''var'' [3]])
       attrs"

text \<open>InstanceNormalization on an input of the given shape, with scale and bias \<open>[4]\<close>.\<close>

definition instance_norm_node :: "int list \<Rightarrow> Node" where
  "instance_norm_node shape =
     example_node ''InstanceNormalization''
       [float_tensor ''x'' shape, float_tensor ''scale'' [4], float_tensor ''bias'' [4]]
       Map.empty"

text \<open>LayerNormalization on a \<open>[2,3,4,5]\<close> input with scale \<open>[5]\<close> and no bias.\<close>

definition layer_norm_node :: "(string \<rightharpoonup> int) \<Rightarrow> Node" where
  "layer_norm_node attrs =
     example_node ''LayerNormalization''
       [float_tensor ''x'' [2, 3, 4, 5], float_tensor ''scale'' [5]] attrs"

text \<open>LayerNormalization on a \<open>[2,8]\<close> input with scale \<open>[8]\<close> and bias \<open>[4]\<close>.\<close>

definition bias_mismatch_node :: Node where
  "bias_mismatch_node =
     example_node ''LayerNormalization''
       [float_tensor ''x'' [2, 8], float_tensor ''scale'' [8], float_tensor ''bias'' [4]]
       Map.empty"

text \<open>A node with a single input whose element type is not resolvable.\<close>

definition untyped_input_node :: Node where
  "untyped_input_node =
     example_node ''LayerNormalization''
       [\<lparr>Name = ''x'', Exists = True, Shape = Some [2, 8], Type = None\<rparr>] Map.empty"

section \<open>Properties\<close>

lemmas example_defs = float_tensor_def example_node_def example_builder_def

lemma length_one: "xs \<noteq> [] \<Longrightarrow> \<not> Suc 0 < length xs \<Longrightarrow> length xs = Suc 0"
  by (cases xs) auto

lemma length_three: "length s = 3 \<Longrightarrow> \<exists>d0 d1 d2. s = [d0, d1, d2]"
  by (cases s; simp; rename_tac a s1; case_tac s1; simp; rename_tac b s2; case_tac s2; simp)

subsection \<open>The filters\<close>

text \<open>
  Claim C8. A BatchNormalization node whose \<^verbatim>\<open>training_mode\<close> attribute is present and not
  zero is declined by \<^verbatim>\<open>IsOpSupportedImpl\<close>: the result is the boolean false, not an error.
  When the attribute is absent the default 0 is used and the check passes: the node is
  supported exactly when the three other rules of the filter hold.
\<close>

theorem IsOpSupportedImpl_training_mode:
  "OpType node = ''BatchNormalization'' \<Longrightarrow>
     (\<forall>v. int_attrs node ''training_mode'' = Some v \<and> v \<noteq> 0 \<longrightarrow> \<not> IsOpSupportedImpl node) \<and>
     (int_attrs node ''training_mode'' = None \<longrightarrow>
        IsOpSupportedImpl node =
          (2 \<le> length (InputDefs node) \<and> GetShape (InputDefs node ! 0) \<noteq> None \<and>
           length (OutputDefs node) = 1))"
  by (auto simp: IsOpSupportedImpl_def Get_int_def Let_def)

text \<open>
  The five-input BatchNormalization node with \<^verbatim>\<open>training_mode = 1\<close> is declined, the same
  node without the attribute is accepted.
\<close>

theorem IsOpSupportedImpl_training_mode_witness:
  "\<not> IsOpSupportedImpl (batch_norm_node 5 [''training_mode'' \<mapsto> 1]) \<and>
   IsOpSupportedImpl (batch_norm_node 5 Map.empty)"
proof -
  have bn1: "OpType (batch_norm_node 5 [''training_mode'' \<mapsto> 1]) = ''BatchNormalization''"
    and bn0: "OpType (batch_norm_node 5 Map.empty) = ''BatchNormalization''"
    by (simp_all add: batch_norm_node_def example_node_def)
  show ?thesis
    using IsOpSupportedImpl_training_mode [OF bn1] IsOpSupportedImpl_training_mode [OF bn0]
    by (simp add: batch_norm_node_def example_node_def float_tensor_def GetShape_def)
qed

text \<open>
  Claim C7. When \<^verbatim>\<open>HasSupportedInputsImpl\<close> returns true, there is one element type,
  float32 or float16, that the input and the scale have and that every present input among
  bias, mean and variance (index 2, 3, 4 within the input list, and existing) has too.
\<close>

theorem HasSupportedInputsImpl_uniform_types:
  assumes "HasSupportedInputsImpl node = Inr True"
  shows "\<exists>t. (t = TensorProto_DataType_FLOAT \<or> t = TensorProto_DataType_FLOAT16) \<and>
              2 \<le> length (InputDefs node) \<and>
              GetType (InputDefs node ! 0) = Some t \<and>
              GetType (InputDefs node ! 1) = Some t \<and>
              (\<forall>i \<in> {2, 3, 4}. i < length (InputDefs node) \<and> Exists (InputDefs node ! i) \<longrightarrow>
                 GetType (InputDefs node ! i) = Some t)"
  using assms
  by (auto simp: HasSupportedInputsImpl_def Let_def at_index_def IsSupportedDataType_def
      split: if_splits sum.splits option.splits)

text \<open>The five-input BatchNormalization node passes the filter; all its inputs are float32.\<close>

theorem HasSupportedInputsImpl_uniform_types_witness:
  "HasSupportedInputsImpl (batch_norm_node 5 Map.empty) = Inr True \<and>
   (\<exists>t. GetType (InputDefs (batch_norm_node 5 Map.empty) ! 0) = Some t \<and>
        GetType (InputDefs (batch_norm_node 5 Map.empty) ! 4) = Some t)"
proof -
  have accepted: "HasSupportedInputsImpl (batch_norm_node 5 Map.empty) = Inr True"
    by (simp add: example_defs batch_norm_node_def HasSupportedInputsImpl_def at_index_def
        GetType_def IsSupportedDataType_def)
  have present: "4 < length (InputDefs (batch_norm_node 5 Map.empty)) \<and>
      Exists (InputDefs (batch_norm_node 5 Map.empty) ! 4)"
    by (simp add: example_defs batch_norm_node_def)
  from HasSupportedInputsImpl_uniform_types [OF accepted] present accepted
  show ?thesis by auto
qed

text \<open>
  Claim C10, as amended. \<^verbatim>\<open>HasSupportedInputsImpl\<close> stays within the bounds of
  \<^verbatim>\<open>input_defs\<close> (it returns a boolean) exactly for the nodes with at least two inputs and
  an input count other than 4, and for the nodes with one input whose element type is not
  resolvable: there the chain of \<^verbatim>\<open>||\<close> returns before \<^verbatim>\<open>input_defs[1]\<close> is read. On a
  node with exactly four inputs \<^verbatim>\<open>input_defs[4]\<close> is read out of bounds.
\<close>

theorem HasSupportedInputsImpl_in_bounds:
  "((\<exists>b. HasSupportedInputsImpl node = Inr b) =
     ((2 \<le> length (InputDefs node) \<and> length (InputDefs node) \<noteq> 4) \<or>
      (length (InputDefs node) = 1 \<and> GetType (InputDefs node ! 0) = None))) \<and>
   (length (InputDefs node) = 4 \<longrightarrow> HasSupportedInputsImpl node = Inl OutOfBounds)"
  apply (auto simp: HasSupportedInputsImpl_def Let_def at_index_def
      split: sum.splits option.splits)
  apply (erule (1) length_one)
  done

text \<open>
  The claim as stated fails on a node with a single input of unresolvable type: every index
  access is in bounds (the filter returns false), and the node has fewer than two inputs.
\<close>

theorem HasSupportedInputsImpl_in_bounds_counterexample:
  "length (InputDefs untyped_input_node) = 1 \<and>
   HasSupportedInputsImpl untyped_input_node = Inr False"
  by (simp add: untyped_input_node_def example_node_def HasSupportedInputsImpl_def at_index_def
      GetType_def)

text \<open>
  With four of its inputs the BatchNormalization node makes the filter read out of bounds,
  with all five it does not.
\<close>

theorem HasSupportedInputsImpl_in_bounds_witness:
  "length (InputDefs (batch_norm_node 4 Map.empty)) = 4 \<and>
   HasSupportedInputsImpl (batch_norm_node 4 Map.empty) = Inl OutOfBounds \<and>
   (\<exists>b. HasSupportedInputsImpl (batch_norm_node 5 Map.empty) = Inr b)"
  using HasSupportedInputsImpl_in_bounds [of "batch_norm_node 4 Map.empty"]
    HasSupportedInputsImpl_in_bounds [of "batch_norm_node 5 Map.empty"]
  by (simp add: batch_norm_node_def example_node_def)

subsection \<open>Conversions and shape arithmetic\<close>

text \<open>
  The checked conversion succeeds exactly on the dimensions that the unsigned 32-bit type
  holds, and then loses nothing.
\<close>

lemma uint_word_of_int_dim: "0 \<le> v \<Longrightarrow> v < 2 ^ 32 \<Longrightarrow> uint (word_of_int v :: uint32) = v"
  by (simp add: uint_word_of_int take_bit_int_eq_self)

lemma convert_dims_ok:
  "\<forall>d \<in> set s. 0 \<le> d \<and> d < 2 ^ 32 \<Longrightarrow> convert_dims s = Inr (map word_of_int s)"
  by (induction s) (simp_all add: SafeInt_uint32_def)

lemma convert_dims_Inr:
  "convert_dims s = Inr ns \<Longrightarrow> ns = map word_of_int s \<and> (\<forall>d \<in> set s. 0 \<le> d \<and> d < 2 ^ 32)"
  by (induction s arbitrary: ns)
     (auto simp: SafeInt_uint32_def split: if_splits sum.splits)

lemma uint_dims:
  "\<forall>d \<in> set s. 0 \<le> d \<and> d < 2 ^ 32 \<Longrightarrow> map uint (map word_of_int s :: uint32 list) = s"
  by (induction s) (simp_all add: uint_word_of_int_dim)

lemma foldl_mult_prod_list: "foldl (*) a xs = a * prod_list (xs :: uint32 list)"
  by (induction xs arbitrary: a) (simp_all add: mult.assoc)

lemma prod_list_word_of_int:
  "prod_list (map word_of_int s :: uint32 list) = word_of_int (prod_list s)"
  by (induction s) simp_all

lemma prod_list_nonneg_dims: "\<forall>d \<in> set s. 0 \<le> d \<Longrightarrow> 0 \<le> prod_list (s :: int list)"
  by (induction s) simp_all

lemma convert_dims_overflow:
  "\<exists>d \<in> set s. \<not> (0 \<le> d \<and> d < 2 ^ 32) \<Longrightarrow> convert_dims s = Inl SafeIntOverflow"
  by (induction s) (auto simp: SafeInt_uint32_def split: sum.splits)

lemma InstanceNormalization_new_shape_overflow:
  "\<exists>d \<in> set s. \<not> (0 \<le> d \<and> d < 2 ^ 32) \<Longrightarrow>
     InstanceNormalization_new_shape s = Some (Inl SafeIntOverflow)"
  by (simp add: InstanceNormalization_new_shape_def convert_dims_overflow)

text \<open>The two shapes that the reshape in front of \<^verbatim>\<open>instanceNormalization\<close> can get.\<close>

lemma new_shape_rank3:
  assumes "\<forall>d \<in> set [d0, d1, d2]. 0 \<le> d \<and> d < 2 ^ 32"
  shows "InstanceNormalization_new_shape [d0, d1, d2] =
           Some (Inr [word_of_int d0, word_of_int d1, word_of_int d2, 1])"
  using assms by (simp add: InstanceNormalization_new_shape_def SafeInt_uint32_def)

lemma new_shape_fold:
  assumes "4 < length s" and "\<forall>d \<in> set s. 0 \<le> d \<and> d < 2 ^ 32"
  shows "InstanceNormalization_new_shape s =
           Some (Inr (map word_of_int (take 3 s) @ [word_of_int (prod_list (drop 3 s))]))"
proof -
  let ?ns = "map word_of_int s :: uint32 list"
  have conv: "convert_dims s = Inr ?ns"
    using assms(2) by (rule convert_dims_ok)
  have excess: "nat (int (length s) - 4 + 1) = length s - 3"
    "nat (int (length s) - 4) = length s - 4"
    using assms(1) by auto
  have sum: "foldl (*) 1 (take (length s - 3) (drop 3 ?ns)) =
      word_of_int (prod_list (drop 3 s))"
    by (simp add: foldl_mult_prod_list drop_map prod_list_word_of_int)
  have erased: "(take 3 ?ns @ drop (3 + (length s - 4)) ?ns)[3 := x] = take 3 ?ns @ [x]" for x
  proof -
    have "length (take 3 ?ns) = 3" using assms(1) by simp
    moreover have "drop (3 + (length s - 4)) ?ns \<noteq> []" using assms(1) by simp
    then obtain y ys where "drop (3 + (length s - 4)) ?ns = y # ys"
      by (cases "drop (3 + (length s - 4)) ?ns") auto
    moreover have "length (drop (3 + (length s - 4)) ?ns) = 1" using assms(1) by simp
    ultimately show ?thesis by (simp add: list_update_append)
  qed
  show ?thesis
    using assms(1) conv sum erased
    by (simp add: InstanceNormalization_new_shape_def Let_def excess take_map)
qed

text \<open>The axes of \<^verbatim>\<open>layerNormalization\<close>.\<close>

lemma int_less_2p32: "rank < 2 ^ 32 \<Longrightarrow> int rank < 2 ^ 32"
proof -
  assume "rank < 2 ^ 32"
  then have "int rank < int (2 ^ 32)" by (simp only: of_nat_less_iff)
  then show ?thesis by simp
qed

lemma iota_upt:
  assumes "0 \<le> axis"
  shows "map (\<lambda>i. word_of_int (axis + int i) :: uint32) [0..<rank - nat axis] =
      map of_nat [nat axis..<rank]"
proof (cases "nat axis \<le> rank")
  case True
  have "map (\<lambda>i. word_of_int (axis + int i) :: uint32) [0..<rank - nat axis] =
      map of_nat (map (\<lambda>i. i + nat axis) [0..<rank - nat axis])"
    using assms by (simp add: o_def add.commute)
  also have "map (\<lambda>i. i + nat axis) [0..<rank - nat axis] = [nat axis..<rank]"
    using True by (simp add: map_add_upt)
  finally show ?thesis .
next
  case False
  then show ?thesis by simp
qed

lemma unat_axes:
  "\<forall>x \<in> set xs. x < 2 ^ 32 \<Longrightarrow> map unat (map of_nat xs :: uint32 list) = xs"
  by (induction xs) (simp_all add: unat_of_nat)

lemma LayerNormalization_axes_normalized:
  assumes "HandleNegativeAxis (Get_int node ''axis'' (- 1)) rank = Inr axis"
    and "0 \<le> axis" and "axis < int rank" and "int rank < 2 ^ 32"
  shows "LayerNormalization_axes node rank = Inr (map of_nat [nat axis ..< rank])"
proof -
  have small: "axis < 2 ^ 32"
    using assms(3,4) by (rule less_trans)
  have safe: "SafeInt_uint32 axis = Inr (word_of_int axis)"
    using assms(2) small by (simp add: SafeInt_uint32_def)
  have uint_axis: "uint (word_of_int axis :: uint32) = axis"
    using assms(2) small by (rule uint_word_of_int_dim)
  have count: "0 \<le> int rank - axis \<and> int rank - axis < 2 ^ 32"
    using assms(2,3,4) by linarith
  have size: "nat (int rank - axis) = rank - nat axis"
    using assms(2) by linarith
  show ?thesis
    unfolding LayerNormalization_axes_def assms(1) sum.case safe uint_axis Let_def size
    using count iota_upt [OF assms(2), of rank] by (simp only: simp_thms if_True)
qed

lemma LayerNormalization_axes_ok:
  assumes "- int rank \<le> Get_int node ''axis'' (- 1)" and "Get_int node ''axis'' (- 1) < int rank"
    and "rank < 2 ^ 32"
  shows "LayerNormalization_axes node rank =
           Inr (map of_nat
                  [nat (if Get_int node ''axis'' (- 1) < 0
                        then Get_int node ''axis'' (- 1) + int rank
                        else Get_int node ''axis'' (- 1)) ..< rank])"
proof -
  let ?axis = "if Get_int node ''axis'' (- 1) < 0
      then Get_int node ''axis'' (- 1) + int rank else Get_int node ''axis'' (- 1)"
  have handle: "HandleNegativeAxis (Get_int node ''axis'' (- 1)) rank = Inr ?axis"
    using assms(1,2) by (simp add: HandleNegativeAxis_def)
  have "0 \<le> ?axis" "?axis < int rank"
    using assms(1,2) by auto
  then show ?thesis
    using handle int_less_2p32 [OF assms(3)] by (rule_tac LayerNormalization_axes_normalized)
qed

subsection \<open>The lowering, step by step\<close>

lemma AddToModelBuilderImpl_of_output:
  "normalization_output model_builder node = Some (Inr output) \<Longrightarrow>
   OutputDefs node \<noteq> [] \<Longrightarrow>
     AddToModelBuilderImpl model_builder node =
       Some (OK, AddOperand model_builder (Name (OutputDefs node ! 0)) output)"
  by (simp add: AddToModelBuilderImpl_def at_index_def)

lemma AddToModelBuilderImpl_of_error:
  "normalization_output model_builder node = Some (Inl e) \<Longrightarrow>
     AddToModelBuilderImpl model_builder node = Some (Error e, model_builder)"
  by (simp add: AddToModelBuilderImpl_def)

lemma InstanceNormalization_output_rank3:
  assumes "\<forall>d \<in> set [d0, d1, d2]. 0 \<le> d \<and> d < 2 ^ 32"
  shows "InstanceNormalization_output node input [d0, d1, d2] options =
     Some (Inr (reshape
            (instanceNormalization
               (reshape input [word_of_int d0, word_of_int d1, word_of_int d2, 1]
                  (NodeName node @ ''_reshape_input''))
               options)
            [word_of_int d0, word_of_int d1, word_of_int d2]
            (NodeName node @ ''reshape_output'')))"
  using assms new_shape_rank3 [OF assms]
  by (simp add: InstanceNormalization_output_def GetVecUint32FromVecInt64_def SafeInt_uint32_def)

lemma InstanceNormalization_output_fold:
  assumes "4 < length s" and "\<forall>d \<in> set s. 0 \<le> d \<and> d < 2 ^ 32"
  shows "InstanceNormalization_output node input s options =
     Some (Inr (reshape
            (instanceNormalization
               (reshape input (map word_of_int (take 3 s) @ [word_of_int (prod_list (drop 3 s))])
                  (NodeName node @ ''_reshape_input''))
               options)
            (map word_of_int s)
            (NodeName node @ ''reshape_output'')))"
  using assms(1) new_shape_fold [OF assms] convert_dims_ok [OF assms(2)]
  by (simp add: InstanceNormalization_output_def GetVecUint32FromVecInt64_def)

lemma InstanceNormalization_output_rank4:
  "length s = 4 \<Longrightarrow>
     InstanceNormalization_output node input s options =
       Some (Inr (instanceNormalization input options))"
  by (simp add: InstanceNormalization_output_def)

lemma InstanceNormalization_output_ok:
  assumes "length s \<noteq> 4 \<longrightarrow> 3 \<le> length s \<and> (\<forall>d \<in> set s. 0 \<le> d \<and> d < 2 ^ 32)"
  shows "\<exists>operand. InstanceNormalization_output node input s options = Some (Inr operand)"
proof (cases "length s = 4")
  case True
  then show ?thesis
    by (simp add: InstanceNormalization_output_rank4)
next
  case False
  with assms have rank: "3 \<le> length s" and dims: "\<forall>d \<in> set s. 0 \<le> d \<and> d < 2 ^ 32"
    by simp_all
  show ?thesis
  proof (cases "length s = 3")
    case True
    then obtain d0 d1 d2 where shape: "s = [d0, d1, d2]"
      using length_three by blast
    show ?thesis
      using InstanceNormalization_output_rank3 [of d0 d1 d2 node input options] dims
      unfolding shape by simp
  next
    case False
    with rank \<open>length s \<noteq> 4\<close> have "4 < length s"
      by linarith
    then show ?thesis
      using dims by (simp add: InstanceNormalization_output_fold)
  qed
qed

lemma normalization_output_BatchNormalization:
  "normalization_options model_builder node = Inr (input, input_shape, options) \<Longrightarrow>
   OpType node = ''BatchNormalization'' \<Longrightarrow>
   normalization_output model_builder node =
     Some (BatchNormalization_output model_builder node input options)"
  by (simp add: normalization_output_def)

lemma normalization_output_LayerNormalization:
  "normalization_options model_builder node = Inr (input, input_shape, options) \<Longrightarrow>
   OpType node = ''LayerNormalization'' \<Longrightarrow>
   normalization_output model_builder node =
     Some (LayerNormalization_output node input (length input_shape) options)"
  by (simp add: normalization_output_def)

lemma normalization_output_InstanceNormalization:
  "normalization_options model_builder node = Inr (input, input_shape, options) \<Longrightarrow>
   OpType node = ''InstanceNormalization'' \<Longrightarrow>
   normalization_output model_builder node =
     InstanceNormalization_output node input input_shape options"
  by (simp add: normalization_output_def)

lemma normalization_output_options_error:
  "normalization_options model_builder node = Inl e \<Longrightarrow>
   normalization_output model_builder node = Some (Inl e)"
  by (simp add: normalization_output_def)

lemma normalization_options_bias_mismatch:
  assumes "3 \<le> length (InputDefs node)" and "Name (InputDefs node ! 2) \<noteq> []"
    and "GetShape (InputDefs node ! 2) \<noteq> GetShape (InputDefs node ! 1)"
  shows "\<exists>e. normalization_options model_builder node = Inl e"
  using assms
  by (auto simp: normalization_options_def Let_def split: sum.splits option.splits)

lemma normalization_options_ok:
  assumes "2 \<le> length (InputDefs node)"
    and "GetShape (InputDefs node ! 0) = Some input_shape"
    and "GetShape (InputDefs node ! 1) = Some scale_shape"
    and "if OpType node = ''LayerNormalization''
         then 1 \<le> length scale_shape \<and> length scale_shape \<le> length input_shape
         else length scale_shape = 1"
    and "3 \<le> length (InputDefs node) \<and> Name (InputDefs node ! 2) \<noteq> [] \<longrightarrow>
           GetShape (InputDefs node ! 2) = Some scale_shape \<and>
           wnn_operands model_builder (Name (InputDefs node ! 2)) \<noteq> None"
    and "wnn_operands model_builder (Name (InputDefs node ! 0)) \<noteq> None"
    and "wnn_operands model_builder (Name (InputDefs node ! 1)) \<noteq> None"
  shows "\<exists>input options.
           normalization_options model_builder node = Inr (input, input_shape, options)"
  using assms
  by (auto simp: normalization_options_def Let_def GetOperand_def split: if_splits)

lemma BatchNormalization_output_arity:
  "length (InputDefs node) \<noteq> 5 \<Longrightarrow>
     BatchNormalization_output model_builder node input options =
       Inl BatchNormalizationRequiresFiveInputs"
  by (simp add: BatchNormalization_output_def)

lemma BatchNormalization_output_ok:
  assumes "length (InputDefs node) = 5"
    and "wnn_operands model_builder (Name (InputDefs node ! 3)) \<noteq> None"
    and "wnn_operands model_builder (Name (InputDefs node ! 4)) \<noteq> None"
  shows "\<exists>output. BatchNormalization_output model_builder node input options = Inr output"
  using assms by (auto simp: BatchNormalization_output_def GetOperand_def)

lemma Exists_bias_shape_update:
  "Exists (xs[2 := (xs ! 2)\<lparr>Shape := s\<rparr>] ! i) = Exists (xs ! i)"
  by (cases "i = 2"; cases "2 < length xs") (simp_all add: list_update_beyond)

lemma Type_bias_shape_update:
  "Type (xs[2 := (xs ! 2)\<lparr>Shape := s\<rparr>] ! i) = Type (xs ! i)"
  by (cases "i = 2"; cases "2 < length xs") (simp_all add: list_update_beyond)

lemma IsOpSupportedImpl_ignores_bias_shape:
  "IsOpSupportedImpl
     (node\<lparr>InputDefs := (InputDefs node)[2 := (InputDefs node ! 2)\<lparr>Shape := s\<rparr>]\<rparr>) =
   IsOpSupportedImpl node"
  by (simp add: IsOpSupportedImpl_def Let_def GetShape_def Get_int_def)

lemma HasSupportedInputsImpl_ignores_bias_shape:
  "HasSupportedInputsImpl
     (node\<lparr>InputDefs := (InputDefs node)[2 := (InputDefs node ! 2)\<lparr>Shape := s\<rparr>]\<rparr>) =
   HasSupportedInputsImpl node"
  by (simp add: HasSupportedInputsImpl_def Let_def at_index_def GetType_def
      Exists_bias_shape_update Type_bias_shape_update
      cong: option.case_cong sum.case_cong if_cong)

text \<open>The shared part of the lowering on the example nodes.\<close>

lemma instance_norm_node_options:
  "normalization_options example_builder (instance_norm_node shape) =
     Inr (Handle 0, shape, Options ''norm'' (Handle 1) (Some (Handle 2)) (1 / 100000) None)"
  by (simp add: normalization_options_def example_defs instance_norm_node_def GetOperand_def
      GetShape_def Get_float_def)

lemma layer_norm_node_options:
  "normalization_options example_builder (layer_norm_node attrs) =
     Inr (Handle 0, [2, 3, 4, 5], Options ''norm'' (Handle 1) None (1 / 100000) None)"
  by (simp add: normalization_options_def example_defs layer_norm_node_def GetOperand_def
      GetShape_def Get_float_def)

lemma bias_mismatch_node_filters:
  "IsOpSupportedImpl bias_mismatch_node" "HasSupportedInputsImpl bias_mismatch_node = Inr True"
  by (simp_all add: IsOpSupportedImpl_def HasSupportedInputsImpl_def at_index_def GetShape_def
      GetType_def Get_int_def IsSupportedDataType_def example_defs bias_mismatch_node_def)

lemma bias_mismatch_node_error:
  "AddToModelBuilderImpl example_builder bias_mismatch_node =
     Some (Error BiasShapeNotEqualScaleShape, example_builder)"
proof -
  have "normalization_options example_builder bias_mismatch_node =
      Inl BiasShapeNotEqualScaleShape"
    by (simp add: normalization_options_def example_defs bias_mismatch_node_def GetOperand_def
        GetShape_def)
  then show ?thesis
    by (simp add: normalization_output_options_error AddToModelBuilderImpl_of_error)
qed

subsection \<open>What the filters leave to the lowering\<close>

text \<open>
  Claim C3, as amended. \<^verbatim>\<open>IsOpSupportedImpl\<close> has no rule on five inputs: it accepts every
  BatchNormalization node with at least two inputs (so also one with exactly four), a
  resolvable input shape, one output and \<^verbatim>\<open>training_mode\<close> absent or 0. The arity is
  checked by \<^verbatim>\<open>AddToModelBuilderImpl\<close>, which fails on every BatchNormalization node whose
  input count is not 5 and leaves the model builder as it was.
\<close>

theorem BatchNormalization_arity_checked_in_lowering:
  assumes "OpType node = ''BatchNormalization''"
    and "2 \<le> length (InputDefs node)"
    and "GetShape (InputDefs node ! 0) \<noteq> None"
    and "length (OutputDefs node) = 1"
    and "Get_int node ''training_mode'' 0 = 0"
  shows "IsOpSupportedImpl node \<and>
     (length (InputDefs node) \<noteq> 5 \<longrightarrow>
        (\<exists>e. AddToModelBuilderImpl model_builder node = Some (Error e, model_builder)))"
proof -
  have accepted: "IsOpSupportedImpl node"
    using assms(2-5) by (simp add: IsOpSupportedImpl_def)
  have "\<exists>e. normalization_output model_builder node = Some (Inl e)"
    if arity: "length (InputDefs node) \<noteq> 5"
  proof (cases "normalization_options model_builder node")
    case (Inl e)
    then show ?thesis
      by (simp add: normalization_output_options_error)
  next
    case (Inr result)
    then obtain input input_shape options where
      "normalization_options model_builder node = Inr (input, input_shape, options)"
      by (cases result) auto
    then show ?thesis
      using assms(1) arity
      by (simp add: normalization_output_BatchNormalization BatchNormalization_output_arity)
  qed
  then have "length (InputDefs node) \<noteq> 5 \<longrightarrow>
      (\<exists>e. AddToModelBuilderImpl model_builder node = Some (Error e, model_builder))"
    by (auto simp: AddToModelBuilderImpl_of_error)
  with accepted show ?thesis ..
qed

text \<open>
  The claim as stated fails: the BatchNormalization node with four inputs, a resolvable
  input shape, one output and no \<^verbatim>\<open>training_mode\<close> is accepted by the support filter.
\<close>

theorem BatchNormalization_arity_checked_in_lowering_counterexample:
  "OpType (batch_norm_node 4 Map.empty) = ''BatchNormalization'' \<and>
   length (InputDefs (batch_norm_node 4 Map.empty)) = 4 \<and>
   IsOpSupportedImpl (batch_norm_node 4 Map.empty)"
  by (simp add: IsOpSupportedImpl_def GetShape_def Get_int_def example_defs
      batch_norm_node_def)

text \<open>The same node is accepted by the filter and rejected by the lowering.\<close>

theorem BatchNormalization_arity_checked_in_lowering_witness:
  "IsOpSupportedImpl (batch_norm_node 4 Map.empty) \<and>
   (\<exists>e. AddToModelBuilderImpl example_builder (batch_norm_node 4 Map.empty) =
      Some (Error e, example_builder))"
proof -
  have "OpType (batch_norm_node 4 Map.empty) = ''BatchNormalization''"
    and "2 \<le> length (InputDefs (batch_norm_node 4 Map.empty))"
    and "GetShape (InputDefs (batch_norm_node 4 Map.empty) ! 0) \<noteq> None"
    and "length (OutputDefs (batch_norm_node 4 Map.empty)) = 1"
    and "Get_int (batch_norm_node 4 Map.empty) ''training_mode'' 0 = 0"
    by (simp_all add: GetShape_def Get_int_def example_defs batch_norm_node_def)
  from BatchNormalization_arity_checked_in_lowering [OF this, of example_builder]
  show ?thesis by (simp add: example_defs batch_norm_node_def)
qed

text \<open>
  Claim C6. On a node with a third input of non-empty name whose static shape is not the
  static shape of the scale input, \<^verbatim>\<open>AddToModelBuilderImpl\<close> fails, before any operation
  is emitted, and the model builder (the operand table) is returned as it was. The filters
  do not look at the shape of the bias: replacing it by any other shape \<open>s\<close> changes the
  result of neither filter.
\<close>

theorem bias_shape_mismatch_rejected:
  assumes "3 \<le> length (InputDefs node)" and "Name (InputDefs node ! 2) \<noteq> []"
    and "GetShape (InputDefs node ! 2) \<noteq> GetShape (InputDefs node ! 1)"
  shows "(\<exists>e. AddToModelBuilderImpl model_builder node = Some (Error e, model_builder)) \<and>
     IsOpSupportedImpl
       (node\<lparr>InputDefs := (InputDefs node)[2 := (InputDefs node ! 2)\<lparr>Shape := s\<rparr>]\<rparr>) =
     IsOpSupportedImpl node \<and>
     HasSupportedInputsImpl
       (node\<lparr>InputDefs := (InputDefs node)[2 := (InputDefs node ! 2)\<lparr>Shape := s\<rparr>]\<rparr>) =
     HasSupportedInputsImpl node"
proof -
  obtain e where "normalization_options model_builder node = Inl e"
    using normalization_options_bias_mismatch [OF assms] by blast
  then have "AddToModelBuilderImpl model_builder node = Some (Error e, model_builder)"
    by (simp add: normalization_output_options_error AddToModelBuilderImpl_of_error)
  then show ?thesis
    by (simp add: IsOpSupportedImpl_ignores_bias_shape HasSupportedInputsImpl_ignores_bias_shape)
qed

text \<open>
  LayerNormalization with scale shape \<open>[8]\<close> and bias shape \<open>[4]\<close>: both filters accept
  the node, the lowering fails.
\<close>

theorem bias_shape_mismatch_rejected_witness:
  "(\<exists>e. AddToModelBuilderImpl example_builder bias_mismatch_node = Some (Error e, example_builder)) \<and>
   IsOpSupportedImpl bias_mismatch_node \<and>
   HasSupportedInputsImpl bias_mismatch_node = Inr True"
proof -
  have "3 \<le> length (InputDefs bias_mismatch_node)"
    and "Name (InputDefs bias_mismatch_node ! 2) \<noteq> []"
    and "GetShape (InputDefs bias_mismatch_node ! 2) \<noteq>
      GetShape (InputDefs bias_mismatch_node ! 1)"
    by (simp_all add: example_defs bias_mismatch_node_def GetShape_def)
  from bias_shape_mismatch_rejected [OF this, of example_builder] bias_mismatch_node_filters
  show ?thesis by simp
qed

text \<open>
  Claim C1, as amended. The lowering of a node of one of the three operator types that both
  filters accept returns OK and registers an operand for the output of the node, provided
  the conditions hold that the lowering checks and the filters do not: the scale shape is
  resolvable, of rank 1 (for LayerNormalization, of a rank from 1 to the input rank); a
  third input of non-empty name has the shape of the scale; BatchNormalization has exactly
  five inputs; the axis of LayerNormalization lies in \<open>[-rank, rank - 1]\<close>, with a rank
  the unsigned 32-bit type holds; every dimension of an InstanceNormalization input of a
  rank other than 4 lies in \<open>[0, 2 ^ 32)\<close>; and the operand table has an operand for
  every input that the lowering looks up. The statement is about the InstanceNormalization
  inputs of rank 4, and of the other ranks from 3 on whose product of the dimensions from
  index 3 on is below \<open>2 ^ 32\<close>. It leaves out the inputs of rank below 3 and those whose
  folded product wraps around: there the source checks nothing and has the defects of
  claims C4 and C9, which this statement neither promises nor denies.
\<close>

theorem AddToModelBuilderImpl_succeeds:
  assumes "OpType node \<in>
      {''BatchNormalization'', ''InstanceNormalization'', ''LayerNormalization''}"
    and "IsOpSupportedImpl node"
    and "HasSupportedInputsImpl node = Inr True"
    and "GetShape (InputDefs node ! 0) = Some input_shape"
    and "GetShape (InputDefs node ! 1) = Some scale_shape"
    and "if OpType node = ''LayerNormalization''
         then 1 \<le> length scale_shape \<and> length scale_shape \<le> length input_shape
         else length scale_shape = 1"
    and "3 \<le> length (InputDefs node) \<and> Name (InputDefs node ! 2) \<noteq> [] \<longrightarrow>
           GetShape (InputDefs node ! 2) = Some scale_shape \<and>
           wnn_operands model_builder (Name (InputDefs node ! 2)) \<noteq> None"
    and "wnn_operands model_builder (Name (InputDefs node ! 0)) \<noteq> None"
    and "wnn_operands model_builder (Name (InputDefs node ! 1)) \<noteq> None"
    and "OpType node = ''BatchNormalization'' \<longrightarrow>
           length (InputDefs node) = 5 \<and>
           wnn_operands model_builder (Name (InputDefs node ! 3)) \<noteq> None \<and>
           wnn_operands model_builder (Name (InputDefs node ! 4)) \<noteq> None"
    and "OpType node = ''LayerNormalization'' \<longrightarrow>
           - int (length input_shape) \<le> Get_int node ''axis'' (- 1) \<and>
           Get_int node ''axis'' (- 1) < int (length input_shape) \<and>
           length input_shape < 2 ^ 32"
    and "OpType node = ''InstanceNormalization'' \<and> length input_shape \<noteq> 4 \<longrightarrow>
           3 \<le> length input_shape \<and> (\<forall>d \<in> set input_shape. 0 \<le> d \<and> d < 2 ^ 32) \<and>
           prod_list (drop 3 input_shape) < 2 ^ 32"
  shows "\<exists>operand. AddToModelBuilderImpl model_builder node =
           Some (OK, AddOperand model_builder (Name (OutputDefs node ! 0)) operand)"
proof -
  have inputs: "2 \<le> length (InputDefs node)" and outputs: "OutputDefs node \<noteq> []"
    using assms(2) by (auto simp: IsOpSupportedImpl_def Let_def split: if_splits)
  obtain input options where
    preamble: "normalization_options model_builder node = Inr (input, input_shape, options)"
    using normalization_options_ok [OF inputs assms(4-9)] by blast
  have "\<exists>operand. normalization_output model_builder node = Some (Inr operand)"
  proof -
    consider "OpType node = ''BatchNormalization''" | "OpType node = ''LayerNormalization''"
      | "OpType node = ''InstanceNormalization''"
      using assms(1) by auto
    then show ?thesis
    proof cases
      case 1
      then show ?thesis
        using assms(10) BatchNormalization_output_ok [of node model_builder input options]
        by (simp add: normalization_output_BatchNormalization [OF preamble])
    next
      case 2
      then show ?thesis
        using assms(11) LayerNormalization_axes_ok [of "length input_shape" node]
        by (simp add: normalization_output_LayerNormalization [OF preamble]
            LayerNormalization_output_def)
    next
      case 3
      then show ?thesis
        using assms(12) InstanceNormalization_output_ok [of input_shape node input options]
        by (simp add: normalization_output_InstanceNormalization [OF preamble])
    qed
  qed
  then show ?thesis
    using outputs by (auto simp: AddToModelBuilderImpl_of_output)
qed

text \<open>
  The claim as stated fails on the node with scale shape \<open>[8]\<close> and bias shape \<open>[4]\<close>:
  both filters accept it and the lowering returns an error.
\<close>

theorem AddToModelBuilderImpl_succeeds_counterexample:
  "OpType bias_mismatch_node = ''LayerNormalization'' \<and>
   IsOpSupportedImpl bias_mismatch_node \<and>
   HasSupportedInputsImpl bias_mismatch_node = Inr True \<and>
   AddToModelBuilderImpl example_builder bias_mismatch_node =
     Some (Error BiasShapeNotEqualScaleShape, example_builder)"
  using bias_mismatch_node_filters bias_mismatch_node_error
  by (simp add: example_defs bias_mismatch_node_def)

text \<open>The five-input BatchNormalization node meets every condition and is lowered.\<close>

theorem AddToModelBuilderImpl_succeeds_witness:
  "IsOpSupportedImpl (batch_norm_node 5 Map.empty) \<and>
   HasSupportedInputsImpl (batch_norm_node 5 Map.empty) = Inr True \<and>
   (\<exists>operand. AddToModelBuilderImpl example_builder (batch_norm_node 5 Map.empty) =
      Some (OK, AddOperand example_builder ''y'' operand))"
proof -
  let ?node = "batch_norm_node 5 Map.empty"
  have op: "OpType ?node \<in>
      {''BatchNormalization'', ''InstanceNormalization'', ''LayerNormalization''}"
    by (simp add: example_defs batch_norm_node_def)
  have supported: "IsOpSupportedImpl ?node"
    by (simp add: IsOpSupportedImpl_def GetShape_def Get_int_def example_defs
        batch_norm_node_def)
  have typed: "HasSupportedInputsImpl ?node = Inr True"
    by (simp add: HasSupportedInputsImpl_def at_index_def GetType_def IsSupportedDataType_def
        example_defs batch_norm_node_def)
  have shapes: "GetShape (InputDefs ?node ! 0) = Some [1, 3, 4, 4]"
    "GetShape (InputDefs ?node ! 1) = Some [3]"
    by (simp_all add: GetShape_def example_defs batch_norm_node_def)
  have scale_size: "if OpType ?node = ''LayerNormalization''
      then 1 \<le> length [3 :: int] \<and> length [3 :: int] \<le> length [1, 3, 4, 4 :: int]
      else length [3 :: int] = 1"
    by simp
  have bias: "3 \<le> length (InputDefs ?node) \<and> Name (InputDefs ?node ! 2) \<noteq> [] \<longrightarrow>
      GetShape (InputDefs ?node ! 2) = Some [3] \<and>
      wnn_operands example_builder (Name (InputDefs ?node ! 2)) \<noteq> None"
    by (simp add: GetShape_def example_defs batch_norm_node_def)
  have operands: "wnn_operands example_builder (Name (InputDefs ?node ! 0)) \<noteq> None"
    "wnn_operands example_builder (Name (InputDefs ?node ! 1)) \<noteq> None"
    by (simp_all add: example_defs batch_norm_node_def)
  have batch: "OpType ?node = ''BatchNormalization'' \<longrightarrow>
      length (InputDefs ?node) = 5 \<and>
      wnn_operands example_builder (Name (InputDefs ?node ! 3)) \<noteq> None \<and>
      wnn_operands example_builder (Name (InputDefs ?node ! 4)) \<noteq> None"
    by (simp add: example_defs batch_norm_node_def)
  have layer: "OpType ?node = ''LayerNormalization'' \<longrightarrow>
      - int (length [1, 3, 4, 4 :: int]) \<le> Get_int ?node ''axis'' (- 1) \<and>
      Get_int ?node ''axis'' (- 1) < int (length [1, 3, 4, 4 :: int]) \<and>
      length [1, 3, 4, 4 :: int] < 2 ^ 32"
    by (simp add: example_defs batch_norm_node_def)
  have padded: "OpType ?node = ''InstanceNormalization'' \<and>
      length [1, 3, 4, 4 :: int] \<noteq> 4 \<longrightarrow>
      3 \<le> length [1, 3, 4, 4 :: int] \<and>
      (\<forall>d \<in> set [1, 3, 4, 4 :: int]. 0 \<le> d \<and> d < 2 ^ 32) \<and>
      prod_list (drop 3 [1, 3, 4, 4 :: int]) < 2 ^ 32"
    by simp
  have name: "Name (OutputDefs ?node ! 0) = ''y''"
    by (simp add: example_defs batch_norm_node_def)
  from AddToModelBuilderImpl_succeeds
    [OF op supported typed shapes scale_size bias operands batch layer padded]
  show ?thesis
    using supported typed unfolding name by simp
qed

subsection \<open>LayerNormalization\<close>

text \<open>
  Claim C5. For a LayerNormalization node on which the shared part of the lowering
  succeeds, with input shape \<open>input_shape\<close> of rank \<open>rank\<close> (a rank that the unsigned
  32-bit type holds) and an axis attribute \<open>a\<close> (default -1) in \<open>[-rank, rank - 1]\<close>, the
  lowering returns OK and registers \<^verbatim>\<open>layerNormalization\<close> of the input, with the axes
  \<open>a', a' + 1, ..., rank - 1\<close> in increasing order in its options, where \<open>a'\<close> is
  \<open>a + rank\<close> when \<open>a\<close> is negative and \<open>a\<close> otherwise. The axes are unsigned 32-bit
  values; read as natural numbers they are the range \<open>[a', rank)\<close>.
\<close>

theorem LayerNormalization_axes_range:
  assumes "OpType node = ''LayerNormalization''"
    and "normalization_options model_builder node = Inr (input, input_shape, options)"
    and "OutputDefs node \<noteq> []"
    and "- int (length input_shape) \<le> Get_int node ''axis'' (- 1)"
    and "Get_int node ''axis'' (- 1) < int (length input_shape)"
    and "length input_shape < 2 ^ 32"
  shows "AddToModelBuilderImpl model_builder node =
     Some (OK, AddOperand model_builder (Name (OutputDefs node ! 0))
        (layerNormalization input
           (Options (label options) (scale options) (bias options) (epsilon options)
              (Some (map of_nat
                       [nat (if Get_int node ''axis'' (- 1) < 0
                             then Get_int node ''axis'' (- 1) + int (length input_shape)
                             else Get_int node ''axis'' (- 1)) ..< length input_shape]))))) \<and>
     map unat
       (map of_nat
          [nat (if Get_int node ''axis'' (- 1) < 0
                then Get_int node ''axis'' (- 1) + int (length input_shape)
                else Get_int node ''axis'' (- 1)) ..< length input_shape] :: uint32 list) =
     [nat (if Get_int node ''axis'' (- 1) < 0
           then Get_int node ''axis'' (- 1) + int (length input_shape)
           else Get_int node ''axis'' (- 1)) ..< length input_shape]"
proof -
  have "normalization_output model_builder node =
      Some (LayerNormalization_output node input (length input_shape) options)"
    using assms(2,1) by (rule normalization_output_LayerNormalization)
  then have lowered: "AddToModelBuilderImpl model_builder node =
     Some (OK, AddOperand model_builder (Name (OutputDefs node ! 0))
        (layerNormalization input
           (Options (label options) (scale options) (bias options) (epsilon options)
              (Some (map of_nat
                       [nat (if Get_int node ''axis'' (- 1) < 0
                             then Get_int node ''axis'' (- 1) + int (length input_shape)
                             else Get_int node ''axis'' (- 1)) ..< length input_shape])))))"
    using LayerNormalization_axes_ok [OF assms(4,5,6)] assms(3)
    by (simp add: LayerNormalization_output_def AddToModelBuilderImpl_of_output)
  have natural: "map unat (map of_nat [k ..< length input_shape] :: uint32 list) =
      [k ..< length input_shape]" for k
  proof (rule unat_axes)
    show "\<forall>x \<in> set [k ..< length input_shape]. x < 2 ^ 32"
      using assms(6) by auto
  qed
  from lowered natural show ?thesis
    by (rule conjI)
qed

text \<open>
  On a rank-4 input: the default axis -1 gives the axes \<open>[3]\<close>, axis -2 gives \<open>[2,3]\<close>
  and axis 1 gives \<open>[1,2,3]\<close>.
\<close>

theorem LayerNormalization_axes_range_witness:
  "AddToModelBuilderImpl example_builder (layer_norm_node Map.empty) =
     Some (OK, AddOperand example_builder ''y''
        (layerNormalization (Handle 0)
           (Options ''norm'' (Handle 1) None (1 / 100000) (Some [3])))) \<and>
   AddToModelBuilderImpl example_builder (layer_norm_node [''axis'' \<mapsto> - 2]) =
     Some (OK, AddOperand example_builder ''y''
        (layerNormalization (Handle 0)
           (Options ''norm'' (Handle 1) None (1 / 100000) (Some [2, 3])))) \<and>
   AddToModelBuilderImpl example_builder (layer_norm_node [''axis'' \<mapsto> 1]) =
     Some (OK, AddOperand example_builder ''y''
        (layerNormalization (Handle 0)
           (Options ''norm'' (Handle 1) None (1 / 100000) (Some [1, 2, 3]))))"
proof -
  have op: "OpType (layer_norm_node attrs) = ''LayerNormalization''"
    and out: "OutputDefs (layer_norm_node attrs) \<noteq> []"
    and names: "Name (OutputDefs (layer_norm_node attrs) ! 0) = ''y''" for attrs
    by (simp_all add: example_defs layer_norm_node_def)
  have rank: "length [2, 3, 4, 5 :: int] < 2 ^ 32"
    by simp
  have axis: "Get_int (layer_norm_node Map.empty) ''axis'' (- 1) = - 1"
    "Get_int (layer_norm_node [''axis'' \<mapsto> - 2]) ''axis'' (- 1) = - 2"
    "Get_int (layer_norm_node [''axis'' \<mapsto> 1]) ''axis'' (- 1) = 1"
    by (simp_all add: Get_int_def example_defs layer_norm_node_def)
  have upt: "[3..<4] = [3::nat]" "[2..<4] = [2, 3::nat]" "[1..<4] = [1, 2, 3::nat]"
    by (simp_all add: upt_rec)
  show ?thesis
    using LayerNormalization_axes_range [OF op layer_norm_node_options out _ _ rank, of Map.empty]
      LayerNormalization_axes_range
        [OF op layer_norm_node_options out _ _ rank, of "[''axis'' \<mapsto> - 2]"]
      LayerNormalization_axes_range
        [OF op layer_norm_node_options out _ _ rank, of "[''axis'' \<mapsto> 1]"]
    by (simp add: axis names upt)
qed

subsection \<open>InstanceNormalization\<close>

text \<open>
  Claim C2, as amended. For an InstanceNormalization node on which the shared part of the
  lowering succeeds, with input shape \<open>[d0, d1, d2]\<close>, each dimension in \<open>[0, 2 ^ 32)\<close>,
  the lowering reshapes the input to \<open>[d0, d1, d2, 1]\<close>: the dimension of size 1 is
  inserted at position 3 of the 4-D shape, after the three dimensions of the input. The
  result of \<^verbatim>\<open>instanceNormalization\<close> is reshaped back to \<open>[d0, d1, d2]\<close>.
\<close>

theorem InstanceNormalization_rank3_reshape:
  assumes "OpType node = ''InstanceNormalization''"
    and "normalization_options model_builder node = Inr (input, [d0, d1, d2], options)"
    and "OutputDefs node \<noteq> []"
    and "\<forall>d \<in> set [d0, d1, d2]. 0 \<le> d \<and> d < 2 ^ 32"
  shows "AddToModelBuilderImpl model_builder node =
     Some (OK, AddOperand model_builder (Name (OutputDefs node ! 0))
        (reshape
           (instanceNormalization
              (reshape input [word_of_int d0, word_of_int d1, word_of_int d2, 1]
                 (NodeName node @ ''_reshape_input''))
              options)
           [word_of_int d0, word_of_int d1, word_of_int d2]
           (NodeName node @ ''reshape_output''))) \<and>
     map uint [word_of_int d0, word_of_int d1, word_of_int d2, 1 :: uint32] = [d0, d1, d2, 1]"
proof -
  have "normalization_output model_builder node =
      InstanceNormalization_output node input [d0, d1, d2] options"
    using assms(2,1) by (rule normalization_output_InstanceNormalization)
  then have "AddToModelBuilderImpl model_builder node =
     Some (OK, AddOperand model_builder (Name (OutputDefs node ! 0))
        (reshape
           (instanceNormalization
              (reshape input [word_of_int d0, word_of_int d1, word_of_int d2, 1]
                 (NodeName node @ ''_reshape_input''))
              options)
           [word_of_int d0, word_of_int d1, word_of_int d2]
           (NodeName node @ ''reshape_output'')))"
    using InstanceNormalization_output_rank3 [OF assms(4)] assms(3)
    by (simp add: AddToModelBuilderImpl_of_output)
  moreover have "map uint [word_of_int d0, word_of_int d1, word_of_int d2, 1 :: uint32] =
      [d0, d1, d2, 1]"
    using assms(4) by (simp add: uint_word_of_int_dim)
  ultimately show ?thesis ..
qed

text \<open>
  The claim as stated fails on the input shape \<open>[2,4,10]\<close>: the target of the reshape is
  \<open>[2,4,10,1]\<close>, not \<open>[2,4,1,10]\<close>.
\<close>

theorem InstanceNormalization_rank3_reshape_counterexample:
  "normalization_output example_builder (instance_norm_node [2, 4, 10]) =
     Some (Inr (reshape
            (instanceNormalization
               (reshape (Handle 0) [2, 4, 10, 1] ''norm_reshape_input'')
               (Options ''norm'' (Handle 1) (Some (Handle 2)) (1 / 100000) None))
            [2, 4, 10] ''normreshape_output'')) \<and>
   [2, 4, 10, 1] \<noteq> [2, 4, 1, 10 :: uint32]"
proof -
  have "OpType (instance_norm_node [2, 4, 10]) = ''InstanceNormalization''"
    by (simp add: example_defs instance_norm_node_def)
  with instance_norm_node_options
  have "normalization_output example_builder (instance_norm_node [2, 4, 10]) =
      InstanceNormalization_output (instance_norm_node [2, 4, 10]) (Handle 0) [2, 4, 10]
        (Options ''norm'' (Handle 1) (Some (Handle 2)) (1 / 100000) None)"
    by (rule normalization_output_InstanceNormalization)
  then show ?thesis
    by (simp add: InstanceNormalization_output_def InstanceNormalization_new_shape_def
        GetVecUint32FromVecInt64_def SafeInt_uint32_def example_defs instance_norm_node_def)
qed

text \<open>The amended claim on the same node.\<close>

theorem InstanceNormalization_rank3_reshape_witness:
  "AddToModelBuilderImpl example_builder (instance_norm_node [2, 4, 10]) =
     Some (OK, AddOperand example_builder ''y''
        (reshape
           (instanceNormalization
              (reshape (Handle 0) [2, 4, 10, 1] ''norm_reshape_input'')
              (Options ''norm'' (Handle 1) (Some (Handle 2)) (1 / 100000) None))
           [2, 4, 10] ''normreshape_output''))"
proof -
  have op: "OpType (instance_norm_node [2, 4, 10]) = ''InstanceNormalization''"
    and out: "OutputDefs (instance_norm_node [2, 4, 10]) \<noteq> []"
    by (simp_all add: example_defs instance_norm_node_def)
  have dims: "\<forall>d \<in> set [2, 4, 10 :: int]. 0 \<le> d \<and> d < 2 ^ 32"
    by simp
  show ?thesis
    using InstanceNormalization_rank3_reshape [OF op instance_norm_node_options out dims]
    by (simp add: example_defs instance_norm_node_def)
qed

text \<open>
  Claim C4. The rank adaptation is not a round trip for every input shape: two defects of
  the source stand against it. On an input of rank below 3, which both filters accept
  (\<open>instance_norm_node_rank2_accepted\<close>),
  \<^verbatim>\<open>insertion_point\<close> is past the end of \<^verbatim>\<open>new_shape\<close> and the \<^verbatim>\<open>insert\<close> of line 108 has
  undefined behaviour: for the shape \<open>[2,4]\<close> no shape \<open>[2,4,1,1]\<close> is computed and no
  status is returned. On an input of rank above 4 whose folded product does not fit the
  unsigned 32-bit type, the product wraps around (the defect of claim C9): the shape
  \<open>[2,4,3,65536,65536]\<close> is adapted to \<open>[2,4,3,0]\<close>, which does not have the element
  count of the input.
\<close>

theorem InstanceNormalization_round_trip_broken:
  "AddToModelBuilderImpl example_builder (instance_norm_node [2, 4]) = None \<and>
   AddToModelBuilderImpl example_builder (instance_norm_node [2, 4, 3, 65536, 65536]) =
     Some (OK, AddOperand example_builder ''y''
        (reshape
           (instanceNormalization
              (reshape (Handle 0) [2, 4, 3, 0] ''norm_reshape_input'')
              (Options ''norm'' (Handle 1) (Some (Handle 2)) (1 / 100000) None))
           [2, 4, 3, 65536, 65536] ''normreshape_output'')) \<and>
   prod_list (map uint [2, 4, 3, 0 :: uint32]) \<noteq> prod_list [2, 4, 3, 65536, 65536]"
proof -
  have op: "OpType (instance_norm_node shape) = ''InstanceNormalization''" for shape
    by (simp add: example_defs instance_norm_node_def)
  have lowered: "normalization_output example_builder (instance_norm_node shape) =
      InstanceNormalization_output (instance_norm_node shape) (Handle 0) shape
        (Options ''norm'' (Handle 1) (Some (Handle 2)) (1 / 100000) None)" for shape
    using instance_norm_node_options op by (rule normalization_output_InstanceNormalization)
  have "normalization_output example_builder (instance_norm_node [2, 4]) = None"
    unfolding lowered
    by (simp add: InstanceNormalization_output_def InstanceNormalization_new_shape_def
        SafeInt_uint32_def)
  then have undefined: "AddToModelBuilderImpl example_builder (instance_norm_node [2, 4]) = None"
    by (simp add: AddToModelBuilderImpl_def)
  have "normalization_output example_builder (instance_norm_node [2, 4, 3, 65536, 65536]) =
      Some (Inr (reshape
             (instanceNormalization
                (reshape (Handle 0) [2, 4, 3, 0] ''norm_reshape_input'')
                (Options ''norm'' (Handle 1) (Some (Handle 2)) (1 / 100000) None))
             [2, 4, 3, 65536, 65536] ''normreshape_output''))"
    unfolding lowered
    by (simp add: InstanceNormalization_output_def InstanceNormalization_new_shape_def
        GetVecUint32FromVecInt64_def SafeInt_uint32_def example_defs instance_norm_node_def)
  then have wrapped:
    "AddToModelBuilderImpl example_builder (instance_norm_node [2, 4, 3, 65536, 65536]) =
     Some (OK, AddOperand example_builder ''y''
        (reshape
           (instanceNormalization
              (reshape (Handle 0) [2, 4, 3, 0] ''norm_reshape_input'')
              (Options ''norm'' (Handle 1) (Some (Handle 2)) (1 / 100000) None))
           [2, 4, 3, 65536, 65536] ''normreshape_output''))"
    by (simp add: AddToModelBuilderImpl_of_output example_defs instance_norm_node_def)
  have count: "prod_list (map uint [2, 4, 3, 0 :: uint32]) \<noteq>
      prod_list [2, 4, 3, 65536, 65536]"
    by simp
  from undefined wrapped count show ?thesis
    by (intro conjI)
qed

text \<open>Both filters accept the node with the input shape \<open>[2,4]\<close>.\<close>

lemma instance_norm_node_rank2_accepted:
  "IsOpSupportedImpl (instance_norm_node [2, 4]) \<and>
   HasSupportedInputsImpl (instance_norm_node [2, 4]) = Inr True"
  by (simp add: IsOpSupportedImpl_def HasSupportedInputsImpl_def at_index_def GetShape_def
      GetType_def Get_int_def IsSupportedDataType_def example_defs instance_norm_node_def)

text \<open>
  Where the round trip holds. For an InstanceNormalization node on which the shared part of
  the lowering succeeds, with an input shape of rank at least 3 and other than 4, every
  dimension in \<open>[0, 2 ^ 32)\<close> and the product of the dimensions from index 3 on below
  \<open>2 ^ 32\<close>, the lowering returns OK; the shape of the reshape in front has four
  dimensions, the first three of the input followed by the product of the remaining ones
  (the empty product 1 for rank 3), so it has the element count of the input; and the
  reshape at the end restores the input shape.
\<close>

theorem InstanceNormalization_round_trip:
  assumes "OpType node = ''InstanceNormalization''"
    and "normalization_options model_builder node = Inr (input, input_shape, options)"
    and "OutputDefs node \<noteq> []"
    and "3 \<le> length input_shape" and "length input_shape \<noteq> 4"
    and "\<forall>d \<in> set input_shape. 0 \<le> d \<and> d < 2 ^ 32"
    and "prod_list (drop 3 input_shape) < 2 ^ 32"
  shows "\<exists>new_shape output_shape.
     AddToModelBuilderImpl model_builder node =
       Some (OK, AddOperand model_builder (Name (OutputDefs node ! 0))
          (reshape
             (instanceNormalization
                (reshape input new_shape (NodeName node @ ''_reshape_input'')) options)
             output_shape (NodeName node @ ''reshape_output''))) \<and>
     length new_shape = 4 \<and>
     map uint new_shape = take 3 input_shape @ [prod_list (drop 3 input_shape)] \<and>
     prod_list (map uint new_shape) = prod_list input_shape \<and>
     map uint output_shape = input_shape"
proof -
  let ?new_shape = "map word_of_int (take 3 input_shape) @
      [word_of_int (prod_list (drop 3 input_shape))] :: uint32 list"
  let ?output_shape = "map word_of_int input_shape :: uint32 list"
  have lowered: "normalization_output model_builder node =
      InstanceNormalization_output node input input_shape options"
    using assms(2,1) by (rule normalization_output_InstanceNormalization)
  have emitted: "InstanceNormalization_output node input input_shape options =
      Some (Inr (reshape
             (instanceNormalization
                (reshape input ?new_shape (NodeName node @ ''_reshape_input'')) options)
             ?output_shape (NodeName node @ ''reshape_output'')))"
  proof (cases "length input_shape = 3")
    case True
    then obtain d0 d1 d2 where shape: "input_shape = [d0, d1, d2]"
      using length_three by blast
    show ?thesis
      using InstanceNormalization_output_rank3 [of d0 d1 d2 node input options] assms(6)
      unfolding shape by simp
  next
    case False
    then have "4 < length input_shape"
      using assms(4,5) by linarith
    then show ?thesis
      using assms(6) by (rule InstanceNormalization_output_fold)
  qed
  have head: "\<forall>d \<in> set (take 3 input_shape). 0 \<le> d \<and> d < 2 ^ 32"
    using assms(6) by (meson in_set_takeD)
  have "\<forall>d \<in> set (drop 3 input_shape). 0 \<le> d"
    using assms(6) by (meson in_set_dropD)
  then have "0 \<le> prod_list (drop 3 input_shape)"
    by (rule prod_list_nonneg_dims)
  then have folded: "uint (word_of_int (prod_list (drop 3 input_shape)) :: uint32) =
      prod_list (drop 3 input_shape)"
    using assms(7) by (rule uint_word_of_int_dim)
  have new_shape: "map uint ?new_shape = take 3 input_shape @ [prod_list (drop 3 input_shape)]"
    using uint_dims [OF head] folded by simp
  have "prod_list (take 3 input_shape @ [prod_list (drop 3 input_shape)]) =
      prod_list (take 3 input_shape @ drop 3 input_shape)"
    by (simp only: prod_list.append) simp
  then have count: "prod_list (map uint ?new_shape) = prod_list input_shape"
    using new_shape by simp
  have len: "length ?new_shape = 4"
    using assms(4) by simp
  have restored: "map uint ?output_shape = input_shape"
    using assms(6) by (rule uint_dims)
  have "AddToModelBuilderImpl model_builder node =
       Some (OK, AddOperand model_builder (Name (OutputDefs node ! 0))
          (reshape
             (instanceNormalization
                (reshape input ?new_shape (NodeName node @ ''_reshape_input'')) options)
             ?output_shape (NodeName node @ ''reshape_output'')))"
    using lowered emitted assms(3) by (simp add: AddToModelBuilderImpl_of_output)
  with len new_shape count restored show ?thesis by blast
qed

text \<open>The shape \<open>[2,4,3,5,7]\<close> is folded to \<open>[2,4,3,35]\<close>, with 840 elements.\<close>

theorem InstanceNormalization_round_trip_example:
  "\<exists>new_shape output_shape.
     AddToModelBuilderImpl example_builder (instance_norm_node [2, 4, 3, 5, 7]) =
       Some (OK, AddOperand example_builder ''y''
          (reshape
             (instanceNormalization
                (reshape (Handle 0) new_shape ''norm_reshape_input'')
                (Options ''norm'' (Handle 1) (Some (Handle 2)) (1 / 100000) None))
             output_shape ''normreshape_output'')) \<and>
     map uint new_shape = [2, 4, 3, 35] \<and>
     prod_list (map uint new_shape) = 840 \<and>
     map uint output_shape = [2, 4, 3, 5, 7]"
proof -
  have op: "OpType (instance_norm_node [2, 4, 3, 5, 7]) = ''InstanceNormalization''"
    and out: "OutputDefs (instance_norm_node [2, 4, 3, 5, 7]) \<noteq> []"
    by (simp_all add: example_defs instance_norm_node_def)
  have rank: "3 \<le> length [2, 4, 3, 5, 7 :: int]" "length [2, 4, 3, 5, 7 :: int] \<noteq> 4"
    by simp_all
  have dims: "\<forall>d \<in> set [2, 4, 3, 5, 7 :: int]. 0 \<le> d \<and> d < 2 ^ 32"
    by simp
  have folded: "prod_list (drop 3 [2, 4, 3, 5, 7 :: int]) < 2 ^ 32"
    by simp
  have names: "Name (OutputDefs (instance_norm_node [2, 4, 3, 5, 7]) ! 0) = ''y''"
    "NodeName (instance_norm_node [2, 4, 3, 5, 7]) = ''norm''"
    by (simp_all add: example_defs instance_norm_node_def)
  from InstanceNormalization_round_trip
    [OF op instance_norm_node_options out rank dims folded]
  obtain new_shape output_shape where
    "AddToModelBuilderImpl example_builder (instance_norm_node [2, 4, 3, 5, 7]) =
       Some (OK, AddOperand example_builder ''y''
          (reshape
             (instanceNormalization
                (reshape (Handle 0) new_shape ''norm_reshape_input'')
                (Options ''norm'' (Handle 1) (Some (Handle 2)) (1 / 100000) None))
             output_shape ''normreshape_output''))"
    and "map uint new_shape = [2, 4, 3, 35]"
    and "prod_list (map uint new_shape) = 840"
    and "map uint output_shape = [2, 4, 3, 5, 7]"
    unfolding names by auto
  then show ?thesis
    by (intro exI [of _ new_shape] exI [of _ output_shape] conjI)
qed

text \<open>
  Claim C9. The conversion of every single dimension is checked (\<open>convert_dims_overflow\<close>),
  but the product of the folded dimensions is not: \<^verbatim>\<open>std::accumulate\<close> multiplies in
  \<^verbatim>\<open>uint32_t\<close>, modulo \<open>2 ^ 32\<close>. On the input shape \<open>[1,4,1,65536,65536]\<close> every
  dimension fits, the folded product \<open>2 ^ 32\<close> does not, and the lowering returns OK with
  a reshape to \<open>[1,4,1,0]\<close> instead of failing.
\<close>

theorem InstanceNormalization_fold_wraps:
  "AddToModelBuilderImpl example_builder (instance_norm_node [1, 4, 1, 65536, 65536]) =
     Some (OK, AddOperand example_builder ''y''
        (reshape
           (instanceNormalization
              (reshape (Handle 0) [1, 4, 1, 0] ''norm_reshape_input'')
              (Options ''norm'' (Handle 1) (Some (Handle 2)) (1 / 100000) None))
           [1, 4, 1, 65536, 65536] ''normreshape_output''))"
proof -
  have "OpType (instance_norm_node [1, 4, 1, 65536, 65536]) = ''InstanceNormalization''"
    by (simp add: example_defs instance_norm_node_def)
  with instance_norm_node_options
  have "normalization_output example_builder (instance_norm_node [1, 4, 1, 65536, 65536]) =
      InstanceNormalization_output (instance_norm_node [1, 4, 1, 65536, 65536]) (Handle 0)
        [1, 4, 1, 65536, 65536]
        (Options ''norm'' (Handle 1) (Some (Handle 2)) (1 / 100000) None)"
    by (rule normalization_output_InstanceNormalization)
  also have "\<dots> =
      Some (Inr (reshape
             (instanceNormalization
                (reshape (Handle 0) [1, 4, 1, 0] ''norm_reshape_input'')
                (Options ''norm'' (Handle 1) (Some (Handle 2)) (1 / 100000) None))
             [1, 4, 1, 65536, 65536] ''normreshape_output''))"
    by (simp add: InstanceNormalization_output_def InstanceNormalization_new_shape_def
        GetVecUint32FromVecInt64_def SafeInt_uint32_def example_defs instance_norm_node_def)
  finally show ?thesis
    by (simp add: AddToModelBuilderImpl_of_output example_defs instance_norm_node_def)
qed

end
